theory Spec2Isabelle
  imports Complex_Main "HOL-Library.Word"
begin

unbundle bit_operations_syntax

section \<open>Python values, exceptions and the I2C transport\<close>

text \<open>
  The driver \<^verbatim>\<open>mcp9808.py\<close> is a Python class over the \<^verbatim>\<open>quick2wire.i2c\<close> bus
  library. Python integers are unbounded and are modelled as \<open>int\<close>; on \<open>int\<close> the
  operations \<open>AND\<close>, \<open>OR\<close>, \<open>NOT\<close> and \<open>push_bit\<close> are the infinite two's complement
  operations \<^verbatim>\<open>&\<close>, \<^verbatim>\<open>|\<close>, \<^verbatim>\<open>~\<close> and \<^verbatim>\<open><<\<close> of Python. The elements of a
  \<^verbatim>\<open>bytearray\<close> are integers in 0..255 and are modelled as 8-bit words, read with
  \<open>uint\<close>. An exception is a value of type \<open>error\<close>; a method that may raise returns
  \<open>error + 'a\<close>, with \<open>Inl\<close> for the exception.
\<close>

datatype error = IOError string | ValueError string | TypeError string | IndexError string

type_synonym byte = "8 word"

text \<open>
  The bus library is not part of the driver; its behaviour is written out here. The
  payload \<^verbatim>\<open>data\<close> that the driver passes on is any Python object: an integer, or
  something else (a list, a bytes object, a string), which the driver never looks into.
\<close>

datatype 'd payload = PyInt int | PyObj 'd

text \<open>
  A message is what \<^verbatim>\<open>writing_bytes(addr, register)\<close>,
  \<^verbatim>\<open>writing_bytes(addr, register, data)\<close> or \<^verbatim>\<open>reading(addr, byteCt)\<close> is asked to
  build.
\<close>

datatype 'd i2c_msg = writing_bytes int int "'d payload option" | reading int int

text \<open>
  The library builds the message before any transaction. \<^verbatim>\<open>writing_bytes\<close> makes its
  buffer with \<^verbatim>\<open>bytes((register, data))\<close>, which raises \<^verbatim>\<open>ValueError\<close> at the first
  integer outside 0..255 and \<^verbatim>\<open>TypeError\<close> at the first argument that is not an
  integer; \<^verbatim>\<open>reading\<close> allocates a buffer of \<^verbatim>\<open>byteCt\<close> bytes, which raises
  \<^verbatim>\<open>ValueError\<close> for a negative count. The address is stored unchecked.
  \<open>msg_error\<close> is the exception raised, \<open>None\<close> when the message is built.
\<close>

definition byte_error :: "int \<Rightarrow> error option" where
  "byte_error b =
     (if 0 \<le> b \<and> b < 256 then None else Some (ValueError ''bytes must be in range(0, 256)''))"

fun msg_error :: "'d i2c_msg \<Rightarrow> error option" where
  "msg_error (writing_bytes a register None) = byte_error register"
| "msg_error (writing_bytes a register (Some (PyInt d))) =
     (case byte_error register of Some e \<Rightarrow> Some e | None \<Rightarrow> byte_error d)"
| "msg_error (writing_bytes a register (Some (PyObj x))) =
     (case byte_error register of
        Some e \<Rightarrow> Some e
      | None \<Rightarrow> Some (TypeError ''object cannot be interpreted as an integer''))"
| "msg_error (reading a n) =
     (if n < 0 then Some (ValueError ''Array length must be >= 0'') else None)"

text \<open>
  \<^verbatim>\<open>I2CMaster.transaction\<close> either raises or returns the list of the byte strings that
  were read. The bus state is the list of the messages handed to \<^verbatim>\<open>transaction\<close> so
  far, whether the transaction went through or raised, and a device decides the outcome
  of a transaction from that history and the message.
\<close>

type_synonym 'd bus = "'d i2c_msg list"

type_synonym 'd device = "'d bus \<Rightarrow> 'd i2c_msg \<Rightarrow> error + byte list list"

definition transaction ::
  "'d device \<Rightarrow> 'd i2c_msg \<Rightarrow> 'd bus \<Rightarrow> (error + byte list list) \<times> 'd bus" where
  "transaction dev msg bus = (dev bus msg, bus @ [msg])"

text \<open>
  \<^verbatim>\<open>self.__i2cMaster.transaction(self.__i2c.writing_bytes(...))\<close>: the argument is
  evaluated first, and when building the message raises, \<^verbatim>\<open>transaction\<close> is not
  called.
\<close>

definition send_msg ::
  "'d device \<Rightarrow> 'd i2c_msg \<Rightarrow> 'd bus \<Rightarrow> (error + byte list list) \<times> 'd bus" where
  "send_msg dev msg bus =
     (case msg_error msg of
        Some e \<Rightarrow> (Inl e, bus)
      | None \<Rightarrow> transaction dev msg bus)"

text \<open>\<^verbatim>\<open>xs[i]\<close> on a bytearray, for the literal indices the driver uses.\<close>

definition getitem :: "byte list \<Rightarrow> nat \<Rightarrow> error + int" where
  "getitem xs i =
     (if i < length xs then Inr (uint (xs ! i))
      else Inl (IndexError ''bytearray index out of range''))"

section \<open>The class \<^verbatim>\<open>mcp9808\<close>\<close>

text \<open>
  The instance fields that the methods read: the bus address, the register map and the
  alert flags of the ambient temperature register. The configuration and resolution
  bit constants, which no method reads, are left out.
\<close>

record mcp9808 =
  addr :: int
  regConfig :: int
  regTUpper :: int
  regTLower :: int
  regTCrit :: int
  regTA :: int
  regMfgID :: int
  regDevID :: int
  regRes :: int
  tempAlertCrit :: int
  tempAlertUpper :: int
  tempAlertLower :: int
  tempAlertMask :: int

text \<open>\<^verbatim>\<open>__init__(self, mcp9808Addr = 0x18)\<close>\<close>

definition init :: "int \<Rightarrow> mcp9808" where
  "init mcp9808Addr =
     \<lparr> addr = mcp9808Addr,
       regConfig = 0x01, regTUpper = 0x02, regTLower = 0x03, regTCrit = 0x04,
       regTA = 0x05, regMfgID = 0x06, regDevID = 0x07, regRes = 0x08,
       tempAlertCrit = 0x8000, tempAlertUpper = 0x4000, tempAlertLower = 0x2000,
       tempAlertMask = 0x1fff \<rparr>"

definition init_default :: mcp9808 where
  "init_default = init 0x18"

text \<open>
  \<^verbatim>\<open>except IOError: raise IOError(msg)\<close>: an \<^verbatim>\<open>IOError\<close> is replaced by one with the
  driver's message, any other exception passes through. Building the message happens
  inside the \<^verbatim>\<open>try\<close> as well.
\<close>

definition reraise :: "string \<Rightarrow> error \<Rightarrow> error" where
  "reraise msg e = (case e of IOError _ \<Rightarrow> IOError msg | _ \<Rightarrow> e)"

definition readReg ::
  "'d device \<Rightarrow> mcp9808 \<Rightarrow> int \<Rightarrow> int \<Rightarrow> 'd bus \<Rightarrow> (error + byte list) \<times> 'd bus" where
  "readReg dev self register byteCt bus =
     (case send_msg dev (writing_bytes (addr self) register None) bus of
        (Inl e, bus1) \<Rightarrow>
          (Inl (reraise ''mcp9808 IO Error: Failed to read MCP9808 sensor on I2C bus.'' e), bus1)
      | (Inr _, bus1) \<Rightarrow>
          (case send_msg dev (reading (addr self) byteCt) bus1 of
             (Inl e, bus2) \<Rightarrow>
               (Inl (reraise ''mcp9808 IO Error: Failed to read MCP9808 sensor on I2C bus.'' e), bus2)
           | (Inr data, bus2) \<Rightarrow>
               (case data of
                  [] \<Rightarrow> (Inl (IndexError ''list index out of range''), bus2)
                | d # _ \<Rightarrow> (Inr d, bus2))))"

definition writeReg ::
  "'d device \<Rightarrow> mcp9808 \<Rightarrow> int \<Rightarrow> 'd payload \<Rightarrow> 'd bus \<Rightarrow> (error + unit) \<times> 'd bus" where
  "writeReg dev self register data bus =
     (case send_msg dev (writing_bytes (addr self) register (Some data)) bus of
        (Inl e, bus1) \<Rightarrow>
          (Inl (reraise ''mcp9808 IO Error: Failed to write to MCP9808 sensor on I2C bus.'' e), bus1)
      | (Inr _, bus1) \<Rightarrow> (Inr (), bus1))"

text \<open>
  \<^verbatim>\<open>__getSigned(unsigned, bits = 11)\<close>. Python raises \<^verbatim>\<open>ValueError\<close> on a shift by
  a negative count.
\<close>

definition getSigned :: "int \<Rightarrow> int \<Rightarrow> error + int" where
  "getSigned unsigned' bits =
     (if bits - 1 < 0 then Inl (ValueError ''negative shift count'')
      else if unsigned' AND push_bit (nat (bits - 1)) 1 \<noteq> 0
           then Inr (unsigned' - push_bit (nat bits) 1)
           else Inr unsigned')"

definition getReg ::
  "'d device \<Rightarrow> mcp9808 \<Rightarrow> int \<Rightarrow> 'd bus \<Rightarrow> (error + byte list) \<times> 'd bus" where
  "getReg dev self register bus =
     (if register < 8 then readReg dev self register 2 bus
      else readReg dev self register 1 bus)"

definition setReg ::
  "'d device \<Rightarrow> mcp9808 \<Rightarrow> int \<Rightarrow> 'd payload \<Rightarrow> 'd bus \<Rightarrow> (error + unit) \<times> 'd bus" where
  "setReg dev self register val bus =
     (if register \<ge> regConfig self \<and> register \<le> regTCrit self
      then writeReg dev self register val bus
      else (Inl (ValueError ''MCP9808 register must be writable to set it.''), bus))"

definition setConfig ::
  "'d device \<Rightarrow> mcp9808 \<Rightarrow> 'd payload \<Rightarrow> 'd bus \<Rightarrow> (error + unit) \<times> 'd bus" where
  "setConfig dev self config bus = setReg dev self (regConfig self) config bus"

text \<open>
  \<^verbatim>\<open>getAmbientTemp()\<close>. The result of \<^verbatim>\<open>signedNum * 0.0625\<close> is a Python float. The
  factor is \<open>2 ^ -4\<close> and \<open>signedNum\<close> has at most 17 bits here, so the product is exact
  in binary64 and the float is the real number computed below.
\<close>

definition getAmbientTemp ::
  "'d device \<Rightarrow> mcp9808 \<Rightarrow> 'd bus \<Rightarrow> (error + real) \<times> 'd bus" where
  "getAmbientTemp dev self bus =
     (case getReg dev self (regTA self) bus of
        (Inl e, bus1) \<Rightarrow> (Inl e, bus1)
      | (Inr i2cRaw, bus1) \<Rightarrow>
          (case getitem i2cRaw 0 of
             Inl e \<Rightarrow> (Inl e, bus1)
           | Inr b0 \<Rightarrow>
          (case getitem i2cRaw 1 of
             Inl e \<Rightarrow> (Inl e, bus1)
           | Inr b1 \<Rightarrow>
          (let tempBytes = (push_bit 8 b0 OR b1) AND tempAlertMask self in
           case getSigned tempBytes 13 of
             Inl e \<Rightarrow> (Inl e, bus1)
           | Inr signedNum \<Rightarrow> (Inr (real_of_int signedNum * 0.0625), bus1)))))"

definition checkAlarmFlags ::
  "'d device \<Rightarrow> mcp9808 \<Rightarrow> int \<Rightarrow> bool \<Rightarrow> 'd bus \<Rightarrow> (error + bool) \<times> 'd bus" where
  "checkAlarmFlags dev self flags strict bus =
     (let retVal = False in
      case getReg dev self (regTA self) bus of
        (Inl e, bus1) \<Rightarrow> (Inl e, bus1)
      | (Inr i2cRaw, bus1) \<Rightarrow>
          (case getitem i2cRaw 0 of
             Inl e \<Rightarrow> (Inl e, bus1)
           | Inr b0 \<Rightarrow>
          (case getitem i2cRaw 1 of
             Inl e \<Rightarrow> (Inl e, bus1)
           | Inr b1 \<Rightarrow>
          (let tempBytes = (push_bit 8 b0 OR b1) AND NOT (tempAlertMask self) in
           if strict then
             (if tempBytes AND flags = flags then (Inr True, bus1) else (Inr retVal, bus1))
           else
             (if tempBytes AND flags > 0 then (Inr True, bus1) else (Inr retVal, bus1))))))"

text \<open>
  A device for concrete runs: every transaction succeeds, and a read returns the given
  bytes whatever the register selected.
\<close>

definition fixed_device :: "byte list \<Rightarrow> 'd device" where
  "fixed_device bs bus msg = (case msg of writing_bytes _ _ _ \<Rightarrow> Inr [] | reading _ _ \<Rightarrow> Inr [bs])"

text \<open>A device whose bus is dead: every transaction raises \<^verbatim>\<open>IOError\<close>.\<close>

definition dead_device :: "'d device" where
  "dead_device bus msg = Inl (IOError ''Input/output error'')"

text \<open>A device that acknowledges writes and fails every read.\<close>

definition mute_device :: "'d device" where
  "mute_device bus msg =
     (case msg of writing_bytes _ _ _ \<Rightarrow> Inr [] | reading _ _ \<Rightarrow> Inl (IOError ''Input/output error''))"

section \<open>Two's complement decoding\<close>

lemma and_4096_iff:
  fixes u :: int
  assumes "0 \<le> u" "u \<le> 8191"
  shows "u AND 4096 \<noteq> 0 \<longleftrightarrow> 4096 \<le> u"
proof -
  have "u AND 2 ^ 12 = 0 \<longleftrightarrow> \<not> bit u 12"
    by (rule and_exp_eq_0_iff_not_bit)
  moreover have "bit u 12 \<longleftrightarrow> odd (u div 4096)"
    by (simp add: bit_iff_odd)
  moreover have "odd (u div 4096) \<longleftrightarrow> 4096 \<le> u"
  proof (cases "4096 \<le> u")
    case True
    with assms have "u div 4096 = 1" by simp
    with True show ?thesis by simp
  next
    case False
    with assms have "u div 4096 = 0" by simp
    with False show ?thesis by simp
  qed
  ultimately show ?thesis by simp
qed

text \<open>
  C2. For every unsigned input \<open>u\<close> in 0..8191, \<^verbatim>\<open>__getSigned(u, 13)\<close> returns \<open>u\<close>
  when \<open>u < 4096\<close> and \<open>u - 8192\<close> when \<open>u \<ge> 4096\<close>; at the boundaries 4095 gives
  4095, 4096 gives -4096 and 8191 gives -1.
\<close>

theorem getSigned_13:
  "(0 \<le> u \<and> u \<le> 8191 \<longrightarrow>
      getSigned u 13 = Inr (if u < 4096 then u else u - 8192))
   \<and> getSigned 4095 13 = Inr 4095
   \<and> getSigned 4096 13 = Inr (- 4096)
   \<and> getSigned 8191 13 = Inr (- 1)"
proof -
  have gen: "getSigned v 13 = Inr (if v < 4096 then v else v - 8192)"
    if "0 \<le> v" "v \<le> 8191" for v :: int
    using and_4096_iff [OF that] by (auto simp add: getSigned_def)
  show ?thesis
    using gen [of 4095] gen [of 4096] gen [of 8191] gen [of u] by simp
qed

theorem getSigned_13_witness:
  "(0::int) \<le> 5000 \<and> (5000::int) \<le> 8191 \<and> getSigned 5000 13 = Inr (- 3192)"
  using getSigned_13 [of 5000] by simp

section \<open>The fields set by the constructor\<close>

lemma init_fields:
  "addr (init a) = a" "regConfig (init a) = 1" "regTCrit (init a) = 4" "regTA (init a) = 5"
  "tempAlertCrit (init a) = 0x8000" "tempAlertUpper (init a) = 0x4000"
  "tempAlertLower (init a) = 0x2000" "tempAlertMask (init a) = 0x1FFF"
  by (simp_all add: init_def)

section \<open>Register words and their bytes\<close>

text \<open>
  The register arrives high byte first; \<^verbatim>\<open>(i2cRaw[0] << 8) | i2cRaw[1]\<close> rebuilds the
  16-bit word from its two bytes.
\<close>

lemma word_of_bytes:
  "push_bit 8 (uint (ucast (drop_bit 8 w) :: byte)) OR uint (ucast w :: byte) = uint (w :: 16 word)"
  by (rule bit_eqI) (auto simp add: bit_simps dest: bit_imp_le_length)

lemma getitem_0: "getitem (x # xs) 0 = Inr (uint x)"
  by (simp add: getitem_def)

lemma getitem_1: "getitem (x # y # xs) (Suc 0) = Inr (uint y)"
  by (simp add: getitem_def)

lemma and_4096_bit: "(m :: int) AND 4096 \<noteq> 0 \<longleftrightarrow> bit m 12"
  using and_exp_eq_0_iff_not_bit [of m 12] by simp

lemma magnitude_range:
  "0 \<le> uint (w :: 16 word) AND 0x1FFF \<and> uint w AND 0x1FFF < 2 ^ 13"
proof -
  have "(0x1FFF :: int) = mask 13"
    by (simp add: mask_eq_exp_minus_1)
  then have "uint w AND 0x1FFF = take_bit 13 (uint w)"
    by (simp add: take_bit_eq_mask)
  then show ?thesis
    using take_bit_int_less_exp [of 13 "uint w"] by simp
qed

lemma flags_of_word: "uint (w :: 16 word) AND NOT 0x1FFF = uint (w AND 0xE000)"
proof -
  have a: "(0x1FFF :: int) = mask 13"
    by (simp add: mask_eq_exp_minus_1)
  have b: "(0xE000 :: 16 word) = NOT (mask 13)"
    by (simp add: mask_eq_exp_minus_1)
  show ?thesis
    unfolding a b by (rule bit_eqI) (auto simp add: bit_simps dest: bit_imp_le_length)
qed

lemma flags_of_word_numeral: "uint (w :: 16 word) AND - 8192 = uint (w AND 0xE000)"
  using flags_of_word [of w] by simp

text \<open>What the fixed device answers to a read of the ambient temperature register.\<close>

lemma getReg_fixed_device:
  "getReg (fixed_device bs) (init a) 5 bus =
     (Inr bs, bus @ [writing_bytes a 5 None, reading a 2])"
  by (simp add: getReg_def readReg_def send_msg_def transaction_def byte_error_def fixed_device_def init_fields)

section \<open>Ambient temperature\<close>

lemma getAmbientTemp_word:
  assumes "getReg dev (init a) 5 bus = (Inr [ucast (drop_bit 8 w), ucast w], bus')"
  shows "getAmbientTemp dev (init a) bus =
    (Inr (real_of_int (if bit (uint (w :: 16 word) AND 0x1FFF) 12
                       then (uint w AND 0x1FFF) - 2 ^ 13 else uint w AND 0x1FFF) * 0.0625), bus')"
  by (simp add: getAmbientTemp_def init_fields assms getitem_0 getitem_1 word_of_bytes
      getSigned_def and_4096_bit)

text \<open>
  C1. For every 16-bit word \<open>w\<close> read from the ambient temperature register (high byte
  first), \<^verbatim>\<open>getAmbientTemp\<close> masks \<open>w\<close> with \<open>0x1FFF\<close>, which leaves a magnitude in
  \<open>0..2^13 - 1\<close>, takes it as \<open>magnitude - 2^13\<close> when bit 12 is set and as it is
  otherwise, and returns that integer times 0.0625. The bytes \<open>[0x01, 0x94]\<close> decode to
  25.25 and the word \<open>0x1FF0\<close> to -1.
\<close>

theorem getAmbientTemp_decode:
  "(getReg dev (init a) (regTA (init a)) bus = (Inr [ucast (drop_bit 8 w), ucast w], bus') \<longrightarrow>
      (let magnitude = uint (w :: 16 word) AND 0x1FFF;
           signedNum = (if bit magnitude 12 then magnitude - 2 ^ 13 else magnitude)
       in 0 \<le> magnitude \<and> magnitude < 2 ^ 13 \<and>
          getAmbientTemp dev (init a) bus = (Inr (real_of_int signedNum * 0.0625), bus')))
   \<and> fst (getAmbientTemp (fixed_device [0x01, 0x94]) (init a) bus0) = Inr 25.25
   \<and> fst (getAmbientTemp (fixed_device [0x1F, 0xF0]) (init a) bus0) = Inr (- 1)"
proof (intro conjI impI)
  assume "getReg dev (init a) (regTA (init a)) bus = (Inr [ucast (drop_bit 8 w), ucast w], bus')"
  then have g: "getReg dev (init a) 5 bus = (Inr [ucast (drop_bit 8 w), ucast w], bus')"
    by (simp add: init_fields)
  show "let magnitude = uint w AND 0x1FFF;
            signedNum = (if bit magnitude 12 then magnitude - 2 ^ 13 else magnitude)
        in 0 \<le> magnitude \<and> magnitude < 2 ^ 13 \<and>
           getAmbientTemp dev (init a) bus = (Inr (real_of_int signedNum * 0.0625), bus')"
    unfolding Let_def using magnitude_range [of w] getAmbientTemp_word [OF g] by simp
next
  show "fst (getAmbientTemp (fixed_device [0x01, 0x94]) (init a) bus0) = Inr 25.25"
    by (simp add: getAmbientTemp_def getReg_fixed_device init_fields getitem_0 getitem_1
        getSigned_def)
next
  show "fst (getAmbientTemp (fixed_device [0x1F, 0xF0]) (init a) bus0) = Inr (- 1)"
    by (simp add: getAmbientTemp_def getReg_fixed_device init_fields getitem_0 getitem_1
        getSigned_def)
qed

theorem getAmbientTemp_decode_witness:
  "getReg (fixed_device [0xFE, 0x6C]) (init 0x18) (regTA (init 0x18)) ([] :: unit bus) =
     (Inr [ucast (drop_bit 8 (0xFE6C :: 16 word)), ucast (0xFE6C :: 16 word)],
      [writing_bytes 0x18 5 None, reading 0x18 2])
   \<and> getAmbientTemp (fixed_device [0xFE, 0x6C]) (init 0x18) ([] :: unit bus) =
       (Inr (- 25.25), [writing_bytes 0x18 5 None, reading 0x18 2])"
proof -
  have h: "getReg (fixed_device [0xFE, 0x6C]) (init 0x18) (regTA (init 0x18)) ([] :: unit bus) =
     (Inr [ucast (drop_bit 8 (0xFE6C :: 16 word)), ucast (0xFE6C :: 16 word)],
      [writing_bytes 0x18 5 None, reading 0x18 2])"
    by (simp add: init_fields getReg_fixed_device)
  show ?thesis
    using h getAmbientTemp_decode [of "fixed_device [0xFE, 0x6C] :: unit device" "0x18"
        "[] :: unit bus" "0xFE6C" "[writing_bytes 0x18 5 None, reading 0x18 2]" "[] :: unit bus"]
    by (simp add: Let_def)
qed

section \<open>Alert flags\<close>

lemma strict_mode_word:
  assumes "getReg dev (init a) 5 bus = (Inr [ucast (drop_bit 8 w), ucast w], bus')"
  shows "checkAlarmFlags dev (init a) flags True bus =
    (Inr (uint ((w :: 16 word) AND 0xE000) AND flags = flags), bus')"
  by (simp add: checkAlarmFlags_def init_fields assms getitem_0 getitem_1 word_of_bytes
      flags_of_word_numeral)

lemma any_mode_word:
  assumes "getReg dev (init a) 5 bus = (Inr [ucast (drop_bit 8 w), ucast w], bus')"
  shows "checkAlarmFlags dev (init a) flags False bus =
    (Inr (uint ((w :: 16 word) AND 0xE000) AND flags \<noteq> 0), bus')"
proof -
  have "0 \<le> uint (w AND 0xE000) AND flags"
    by simp
  then have p: "0 < uint (w AND 0xE000) AND flags \<longleftrightarrow> uint (w AND 0xE000) AND flags \<noteq> 0"
    by linarith
  show ?thesis
    by (simp add: checkAlarmFlags_def init_fields assms getitem_0 getitem_1 word_of_bytes
        flags_of_word_numeral p)
qed

lemma checkAlarmFlags_fixed_device:
  "fst (checkAlarmFlags (fixed_device [hi, lo]) (init a) flags strict bus) =
     Inr (if strict then (push_bit 8 (uint hi) OR uint lo) AND - 8192 AND flags = flags
          else 0 < (push_bit 8 (uint hi) OR uint lo) AND - 8192 AND flags)"
  by (simp add: checkAlarmFlags_def getReg_fixed_device init_fields getitem_0 getitem_1
      and.assoc)

text \<open>
  C3. For every 16-bit word \<open>w\<close> read from the ambient temperature register and every
  requested mask \<open>flags\<close>, \<^verbatim>\<open>checkAlarmFlags(flags, strict = True)\<close> returns true if
  and only if the flag bits of the device (bits 13 to 15 of \<open>w\<close>) ANDed with \<open>flags\<close>
  equal \<open>flags\<close>. Flags of the device that were not requested are permitted: with
  bits 15 and 13 set and only the critical flag requested the answer is true; with only
  the critical flag set and critical and upper requested it is false.
\<close>

theorem checkAlarmFlags_strict:
  "(getReg dev (init a) (regTA (init a)) bus = (Inr [ucast (drop_bit 8 w), ucast w], bus') \<longrightarrow>
      checkAlarmFlags dev (init a) flags True bus =
        (Inr (uint ((w :: 16 word) AND 0xE000) AND flags = flags), bus'))
   \<and> fst (checkAlarmFlags (fixed_device [0xA0, 0x00]) (init a) (tempAlertCrit (init a)) True bus0)
       = Inr True
   \<and> fst (checkAlarmFlags (fixed_device [0x80, 0x00]) (init a)
            (tempAlertCrit (init a) OR tempAlertUpper (init a)) True bus0)
       = Inr False"
proof (intro conjI impI)
  assume "getReg dev (init a) (regTA (init a)) bus = (Inr [ucast (drop_bit 8 w), ucast w], bus')"
  then have "getReg dev (init a) 5 bus = (Inr [ucast (drop_bit 8 w), ucast w], bus')"
    by (simp add: init_fields)
  then show "checkAlarmFlags dev (init a) flags True bus =
      (Inr (uint (w AND 0xE000) AND flags = flags), bus')"
    by (rule strict_mode_word)
next
  show "fst (checkAlarmFlags (fixed_device [0xA0, 0x00]) (init a) (tempAlertCrit (init a)) True bus0)
      = Inr True"
    by (simp add: checkAlarmFlags_fixed_device init_fields)
next
  show "fst (checkAlarmFlags (fixed_device [0x80, 0x00]) (init a)
          (tempAlertCrit (init a) OR tempAlertUpper (init a)) True bus0) = Inr False"
    by (simp add: checkAlarmFlags_fixed_device init_fields)
qed

theorem checkAlarmFlags_strict_witness:
  "getReg (fixed_device [0xC1, 0x94]) (init 0x18) (regTA (init 0x18)) ([] :: unit bus) =
     (Inr [ucast (drop_bit 8 (0xC194 :: 16 word)), ucast (0xC194 :: 16 word)],
      [writing_bytes 0x18 5 None, reading 0x18 2])
   \<and> checkAlarmFlags (fixed_device [0xC1, 0x94]) (init 0x18) 0x4000 True ([] :: unit bus) =
       (Inr True, [writing_bytes 0x18 5 None, reading 0x18 2])"
proof -
  have h: "getReg (fixed_device [0xC1, 0x94]) (init 0x18) (regTA (init 0x18)) ([] :: unit bus) =
     (Inr [ucast (drop_bit 8 (0xC194 :: 16 word)), ucast (0xC194 :: 16 word)],
      [writing_bytes 0x18 5 None, reading 0x18 2])"
    by (simp add: init_fields getReg_fixed_device)
  show ?thesis
    using h checkAlarmFlags_strict [of "fixed_device [0xC1, 0x94] :: unit device" "0x18"
        "[] :: unit bus" "0xC194" "[writing_bytes 0x18 5 None, reading 0x18 2]" "0x4000"
        "[] :: unit bus"]
    by simp
qed

text \<open>
  C4. For every 16-bit word \<open>w\<close> read from the ambient temperature register and every
  requested mask \<open>flags\<close>, \<^verbatim>\<open>checkAlarmFlags(flags, strict = False)\<close> returns true if
  and only if the flag bits of the device (bits 13 to 15 of \<open>w\<close>) ANDed with \<open>flags\<close>
  are not zero. With only the critical flag set and the upper flag requested the answer
  is false.
\<close>

theorem checkAlarmFlags_non_strict:
  "(getReg dev (init a) (regTA (init a)) bus = (Inr [ucast (drop_bit 8 w), ucast w], bus') \<longrightarrow>
      checkAlarmFlags dev (init a) flags False bus =
        (Inr (uint ((w :: 16 word) AND 0xE000) AND flags \<noteq> 0), bus'))
   \<and> fst (checkAlarmFlags (fixed_device [0x80, 0x00]) (init a) (tempAlertUpper (init a)) False bus0)
       = Inr False"
proof (intro conjI impI)
  assume "getReg dev (init a) (regTA (init a)) bus = (Inr [ucast (drop_bit 8 w), ucast w], bus')"
  then have "getReg dev (init a) 5 bus = (Inr [ucast (drop_bit 8 w), ucast w], bus')"
    by (simp add: init_fields)
  then show "checkAlarmFlags dev (init a) flags False bus =
      (Inr (uint (w AND 0xE000) AND flags \<noteq> 0), bus')"
    by (rule any_mode_word)
next
  show "fst (checkAlarmFlags (fixed_device [0x80, 0x00]) (init a) (tempAlertUpper (init a)) False bus0)
      = Inr False"
    by (simp add: checkAlarmFlags_fixed_device init_fields)
qed

theorem checkAlarmFlags_non_strict_witness:
  "getReg (fixed_device [0xC1, 0x94]) (init 0x18) (regTA (init 0x18)) ([] :: unit bus) =
     (Inr [ucast (drop_bit 8 (0xC194 :: 16 word)), ucast (0xC194 :: 16 word)],
      [writing_bytes 0x18 5 None, reading 0x18 2])
   \<and> checkAlarmFlags (fixed_device [0xC1, 0x94]) (init 0x18) 0x6000 False ([] :: unit bus) =
       (Inr True, [writing_bytes 0x18 5 None, reading 0x18 2])"
proof -
  have h: "getReg (fixed_device [0xC1, 0x94]) (init 0x18) (regTA (init 0x18)) ([] :: unit bus) =
     (Inr [ucast (drop_bit 8 (0xC194 :: 16 word)), ucast (0xC194 :: 16 word)],
      [writing_bytes 0x18 5 None, reading 0x18 2])"
    by (simp add: init_fields getReg_fixed_device)
  show ?thesis
    using h checkAlarmFlags_non_strict [of "fixed_device [0xC1, 0x94] :: unit device" "0x18"
        "[] :: unit bus" "0xC194" "[writing_bytes 0x18 5 None, reading 0x18 2]" "0x6000"
        "[] :: unit bus"]
    by simp
qed

text \<open>
  C5. The flag bits of the ambient temperature word \<open>0xA194\<close>, taken with the
  complement of the magnitude mask, are \<open>0xA000\<close> and not \<open>0x8000\<close>: the hexadecimal
  digit \<open>A\<close> is \<open>1010\<close>, so bit 15 and bit 13 are set. The critical flag and the lower
  flag are set, the upper flag is clear, and \<^verbatim>\<open>checkAlarmFlags\<close> answers so for each
  flag in both modes.
\<close>

theorem flags_of_0xA194:
  "(0xA194 :: int) AND NOT (tempAlertMask (init a)) = 0xA000
   \<and> (0xA000 :: int) AND tempAlertCrit (init a) \<noteq> 0
   \<and> (0xA000 :: int) AND tempAlertUpper (init a) = 0
   \<and> (0xA000 :: int) AND tempAlertLower (init a) \<noteq> 0
   \<and> fst (checkAlarmFlags (fixed_device [0xA1, 0x94]) (init a) (tempAlertCrit (init a)) strict bus)
       = Inr True
   \<and> fst (checkAlarmFlags (fixed_device [0xA1, 0x94]) (init a) (tempAlertUpper (init a)) strict bus)
       = Inr False
   \<and> fst (checkAlarmFlags (fixed_device [0xA1, 0x94]) (init a) (tempAlertLower (init a)) strict bus)
       = Inr True"
  by (simp add: checkAlarmFlags_fixed_device init_fields)

text \<open>
  The value \<open>0x8000\<close> with the lower flag clear is not what the driver computes for
  this word: the flag bits differ from \<open>0x8000\<close>, and the lower flag is reported as
  set.
\<close>

theorem flags_of_0xA194_counterexample:
  "(0xA194 :: int) AND NOT (tempAlertMask init_default) \<noteq> 0x8000
   \<and> fst (checkAlarmFlags (fixed_device [0xA1, 0x94]) init_default
            (tempAlertLower init_default) False ([] :: unit bus)) = Inr True"
  by (simp add: checkAlarmFlags_fixed_device init_fields init_default_def)

text \<open>
  C10. With the empty mask \<open>flags = 0\<close>, whatever two bytes the device returns,
  \<^verbatim>\<open>checkAlarmFlags\<close> returns true in strict mode and false otherwise.
\<close>

theorem checkAlarmFlags_empty_mask:
  assumes "getReg dev self (regTA self) bus = (Inr (hi # lo # rest), bus')"
  shows "checkAlarmFlags dev self 0 True bus = (Inr True, bus')
       \<and> checkAlarmFlags dev self 0 False bus = (Inr False, bus')"
  by (simp add: checkAlarmFlags_def assms getitem_0 getitem_1)

theorem checkAlarmFlags_empty_mask_witness:
  "getReg (fixed_device [0xE1, 0x94]) (init 0x18) (regTA (init 0x18)) ([] :: unit bus) =
     (Inr [0xE1, 0x94], [writing_bytes 0x18 5 None, reading 0x18 2])
   \<and> checkAlarmFlags (fixed_device [0xE1, 0x94]) (init 0x18) 0 True ([] :: unit bus) =
       (Inr True, [writing_bytes 0x18 5 None, reading 0x18 2])
   \<and> checkAlarmFlags (fixed_device [0xE1, 0x94]) (init 0x18) 0 False ([] :: unit bus) =
       (Inr False, [writing_bytes 0x18 5 None, reading 0x18 2])"
proof -
  have h: "getReg (fixed_device [0xE1, 0x94]) (init 0x18) (regTA (init 0x18)) ([] :: unit bus) =
     (Inr [0xE1, 0x94], [writing_bytes 0x18 5 None, reading 0x18 2])"
    by (simp add: init_fields getReg_fixed_device)
  show ?thesis
    using h checkAlarmFlags_empty_mask [OF h] by simp
qed

section \<open>Register access on the bus\<close>

lemma send_msg_cases:
  "send_msg dev msg bus =
     (case msg_error msg of Some e \<Rightarrow> (Inl e, bus) | None \<Rightarrow> (dev bus msg, bus @ [msg]))"
  by (simp add: send_msg_def transaction_def split: option.split)

lemma readReg_ok_bus:
  assumes "fst (readReg dev self register byteCt bus) = Inr d"
  shows "snd (readReg dev self register byteCt bus) =
    bus @ [writing_bytes (addr self) register None, reading (addr self) byteCt]"
  using assms
  by (auto simp add: readReg_def send_msg_cases split: option.splits sum.splits list.splits)

lemma reraise_IOError_iff: "(\<exists>m. reraise msg e = IOError m) \<longleftrightarrow> (\<exists>m. e = IOError m)"
  by (cases e) (simp_all add: reraise_def)

text \<open>
  C6. \<^verbatim>\<open>setReg\<close> rejects a write as not writable, raising its \<^verbatim>\<open>ValueError\<close> with
  the bus untouched (no transport call is made), if and only if the register is outside
  0x01..0x04, whatever the payload. For a register inside 0x01..0x04 the guard lets the
  call through: \<^verbatim>\<open>setReg\<close> is the register write. That write hands exactly one
  message (address, register, payload) to the bus when the payload is one byte value
  0..255; any other payload is refused by the bus library while it builds the message,
  with the library's own \<^verbatim>\<open>ValueError\<close> or \<^verbatim>\<open>TypeError\<close> and no transaction.
\<close>

theorem setReg_guard:
  "(setReg dev (init a) register val bus =
        (Inl (ValueError ''MCP9808 register must be writable to set it.''), bus)
      \<longleftrightarrow> register < 1 \<or> 4 < register)
   \<and> (1 \<le> register \<and> register \<le> 4 \<longrightarrow>
        setReg dev (init a) register val bus = writeReg dev (init a) register val bus)
   \<and> (1 \<le> register \<and> register \<le> 4 \<and> 0 \<le> d \<and> d < 256 \<longrightarrow>
        snd (setReg dev (init a) register (PyInt d) bus) =
          bus @ [writing_bytes a register (Some (PyInt d))])
   \<and> (1 \<le> register \<and> register \<le> 4 \<and> (d < 0 \<or> 256 \<le> d) \<longrightarrow>
        setReg dev (init a) register (PyInt d) bus =
          (Inl (ValueError ''bytes must be in range(0, 256)''), bus))
   \<and> (1 \<le> register \<and> register \<le> 4 \<longrightarrow>
        setReg dev (init a) register (PyObj x) bus =
          (Inl (TypeError ''object cannot be interpreted as an integer''), bus))"
proof (intro conjI impI)
  show "setReg dev (init a) register val bus =
        (Inl (ValueError ''MCP9808 register must be writable to set it.''), bus)
      \<longleftrightarrow> register < 1 \<or> 4 < register"
  proof (cases "1 \<le> register \<and> register \<le> 4")
    case False
    then show ?thesis
      by (auto simp add: setReg_def init_fields)
  next
    case True
    then have w: "setReg dev (init a) register val bus = writeReg dev (init a) register val bus"
      by (simp add: setReg_def init_fields)
    have "writeReg dev (init a) register val bus \<noteq>
        (Inl (ValueError ''MCP9808 register must be writable to set it.''), bus)"
    proof (cases "msg_error (writing_bytes a register (Some val))")
      case None
      then have "snd (writeReg dev (init a) register val bus) =
          bus @ [writing_bytes a register (Some val)]"
        by (simp add: writeReg_def send_msg_def transaction_def init_fields split: sum.splits)
      then show ?thesis
        by auto
    next
      case (Some e)
      have e: "e = ValueError ''bytes must be in range(0, 256)''
          \<or> e = TypeError ''object cannot be interpreted as an integer''"
        using Some True
        by (cases val) (auto simp add: byte_error_def split: if_splits)
      have "writeReg dev (init a) register val bus =
          (Inl (reraise ''mcp9808 IO Error: Failed to write to MCP9808 sensor on I2C bus.'' e), bus)"
        by (simp add: writeReg_def send_msg_def init_fields Some)
      with e show ?thesis
        by (auto simp add: reraise_def)
    qed
    with w True show ?thesis
      by simp
  qed
next
  assume "1 \<le> register \<and> register \<le> 4"
  then show "setReg dev (init a) register val bus = writeReg dev (init a) register val bus"
    by (simp add: setReg_def init_fields)
next
  assume "1 \<le> register \<and> register \<le> 4 \<and> 0 \<le> d \<and> d < 256"
  then show "snd (setReg dev (init a) register (PyInt d) bus) =
      bus @ [writing_bytes a register (Some (PyInt d))]"
    by (simp add: setReg_def writeReg_def send_msg_def transaction_def byte_error_def
        init_fields split: sum.splits)
next
  assume "1 \<le> register \<and> register \<le> 4 \<and> (d < 0 \<or> 256 \<le> d)"
  then show "setReg dev (init a) register (PyInt d) bus =
      (Inl (ValueError ''bytes must be in range(0, 256)''), bus)"
    by (auto simp add: setReg_def writeReg_def send_msg_def byte_error_def reraise_def
        init_fields)
next
  assume "1 \<le> register \<and> register \<le> 4"
  then show "setReg dev (init a) register (PyObj x) bus =
      (Inl (TypeError ''object cannot be interpreted as an integer''), bus)"
    by (simp add: setReg_def writeReg_def send_msg_def byte_error_def reraise_def init_fields)
qed

theorem setReg_guard_witness:
  "((5 :: int) < 1 \<or> (4 :: int) < 5)
   \<and> setReg (fixed_device []) (init 0x18) 5 (PyInt 0) ([] :: unit bus) =
       (Inl (ValueError ''MCP9808 register must be writable to set it.''), [])
   \<and> (1 :: int) \<le> 2 \<and> (2 :: int) \<le> 4 \<and> (0 :: int) \<le> 0 \<and> (0 :: int) < 256
   \<and> setReg (fixed_device []) (init 0x18) 2 (PyInt 0) ([] :: unit bus) =
       (Inr (), [writing_bytes 0x18 2 (Some (PyInt 0))])
   \<and> (1 :: int) \<le> 1 \<and> (1 :: int) \<le> 4 \<and> ((0x0100 :: int) < 0 \<or> (256 :: int) \<le> 0x0100)
   \<and> setReg (fixed_device []) (init 0x18) 1 (PyInt 0x0100) ([] :: unit bus) =
       (Inl (ValueError ''bytes must be in range(0, 256)''), [])
   \<and> setReg (fixed_device []) (init 0x18) 1 (PyObj ()) ([] :: unit bus) =
       (Inl (TypeError ''object cannot be interpreted as an integer''), [])"
  using
    setReg_guard [where dev = "fixed_device [] :: unit device" and a = "0x18" and register = 5
      and val = "PyInt 0" and bus = "[]" and d = 0 and x = "()"]
    setReg_guard [where dev = "fixed_device [] :: unit device" and a = "0x18" and register = 2
      and val = "PyInt 0" and bus = "[]" and d = 0 and x = "()"]
    setReg_guard [where dev = "fixed_device [] :: unit device" and a = "0x18" and register = 1
      and val = "PyInt 0x0100" and bus = "[]" and d = "0x0100" and x = "()"]
  by (simp add: writeReg_def send_msg_def transaction_def byte_error_def fixed_device_def
      reraise_def init_fields)

text \<open>
  C7. For every register address in 0x01..0x08, \<^verbatim>\<open>getReg\<close> first selects the
  register and then, when the selection went through, issues one read: of 2 bytes for
  0x01..0x07 and of 1 byte for 0x08. The width is computed from the address; \<^verbatim>\<open>getReg\<close>
  has no parameter for it.
\<close>

theorem getReg_width:
  "(1 \<le> register \<and> register \<le> 7 \<longrightarrow>
      getReg dev self register bus = readReg dev self register 2 bus
      \<and> (dev bus (writing_bytes (addr self) register None) = Inr x \<longrightarrow>
           snd (getReg dev self register bus) =
             bus @ [writing_bytes (addr self) register None, reading (addr self) 2]))
   \<and> (register = 8 \<longrightarrow>
      getReg dev self register bus = readReg dev self register 1 bus
      \<and> (dev bus (writing_bytes (addr self) register None) = Inr x \<longrightarrow>
           snd (getReg dev self register bus) =
             bus @ [writing_bytes (addr self) register None, reading (addr self) 1]))"
  by (auto simp add: getReg_def readReg_def send_msg_def transaction_def byte_error_def split: sum.splits list.splits)

theorem getReg_width_witness:
  "(1 :: int) \<le> 5 \<and> (5 :: int) \<le> 7
   \<and> fixed_device [0x01, 0x94] ([] :: unit bus) (writing_bytes 0x18 5 None) = Inr []
   \<and> snd (getReg (fixed_device [0x01, 0x94]) (init 0x18) 5 ([] :: unit bus)) =
       [writing_bytes 0x18 5 None, reading 0x18 2]
   \<and> fixed_device [0x03] ([] :: unit bus) (writing_bytes 0x18 8 None) = Inr []
   \<and> snd (getReg (fixed_device [0x03]) (init 0x18) 8 ([] :: unit bus)) =
       [writing_bytes 0x18 8 None, reading 0x18 1]"
  using getReg_width [of 5 "fixed_device [0x01, 0x94] :: unit device" "init 0x18" "[]" "[]"]
    getReg_width [of 8 "fixed_device [0x03] :: unit device" "init 0x18" "[]" "[]"]
  by (auto simp add: fixed_device_def init_fields)

text \<open>
  C8. Every call of \<^verbatim>\<open>__readReg\<close> (and so of \<^verbatim>\<open>getReg\<close>) that returns has made
  exactly two transactions, in this order: a write of the register address alone, then
  a read of the requested number of bytes. Each transaction carries one message.
\<close>

theorem readReg_two_transactions:
  "(fst (readReg dev self register byteCt bus) = Inr d \<longrightarrow>
      snd (readReg dev self register byteCt bus) =
        bus @ [writing_bytes (addr self) register None, reading (addr self) byteCt])
   \<and> (fst (getReg dev self register bus) = Inr d \<longrightarrow>
      snd (getReg dev self register bus) =
        bus @ [writing_bytes (addr self) register None,
               reading (addr self) (if register < 8 then 2 else 1)])"
  by (auto simp add: getReg_def dest: readReg_ok_bus)

theorem readReg_two_transactions_witness:
  "fst (readReg (fixed_device [0x01, 0x94]) (init 0x18) 5 2 ([] :: unit bus)) = Inr [0x01, 0x94]
   \<and> snd (readReg (fixed_device [0x01, 0x94]) (init 0x18) 5 2 ([] :: unit bus)) =
       [writing_bytes 0x18 5 None, reading 0x18 2]
   \<and> fst (getReg (fixed_device [0x01, 0x94]) (init 0x18) 5 ([] :: unit bus)) = Inr [0x01, 0x94]
   \<and> snd (getReg (fixed_device [0x01, 0x94]) (init 0x18) 5 ([] :: unit bus)) =
       [writing_bytes 0x18 5 None, reading 0x18 2]"
proof -
  have h1: "fst (readReg (fixed_device [0x01, 0x94]) (init 0x18) 5 2 ([] :: unit bus)) =
      Inr [0x01, 0x94]"
    by (simp add: readReg_def send_msg_def transaction_def byte_error_def fixed_device_def)
  have h2: "fst (getReg (fixed_device [0x01, 0x94]) (init 0x18) 5 ([] :: unit bus)) =
      Inr [0x01, 0x94]"
    by (simp add: getReg_fixed_device)
  show ?thesis
    using h1 h2
      readReg_two_transactions [of "fixed_device [0x01, 0x94] :: unit device" "init 0x18" 5 2
        "[]" "[0x01, 0x94]"]
    by (simp add: init_fields)
qed

text \<open>
  C9. \<^verbatim>\<open>__readReg\<close> raises \<^verbatim>\<open>IOError\<close> if and only if the transport raises
  \<^verbatim>\<open>IOError\<close> on the register selection, or the selection goes through and the
  transport raises \<^verbatim>\<open>IOError\<close> on the read that follows. The transport is asked only
  for a message that the library has built: a selection of a register in 0..255, a read
  of a count that is not negative. Nothing is retried: after a failed selection the bus
  has seen that one message, after a failed read the two.
\<close>

theorem readReg_IOError_iff:
  "((\<exists>m. fst (readReg dev self register byteCt bus) = Inl (IOError m)) \<longleftrightarrow>
      0 \<le> register \<and> register < 256
      \<and> ((\<exists>m. dev bus (writing_bytes (addr self) register None) = Inl (IOError m))
         \<or> ((\<exists>x. dev bus (writing_bytes (addr self) register None) = Inr x)
            \<and> 0 \<le> byteCt
            \<and> (\<exists>m. dev (bus @ [writing_bytes (addr self) register None])
                      (reading (addr self) byteCt) = Inl (IOError m)))))
   \<and> (0 \<le> register \<and> register < 256
      \<and> dev bus (writing_bytes (addr self) register None) = Inl (IOError m1) \<longrightarrow>
        readReg dev self register byteCt bus =
          (Inl (IOError ''mcp9808 IO Error: Failed to read MCP9808 sensor on I2C bus.''),
           bus @ [writing_bytes (addr self) register None]))
   \<and> (0 \<le> register \<and> register < 256 \<and> 0 \<le> byteCt
      \<and> dev bus (writing_bytes (addr self) register None) = Inr x
      \<and> dev (bus @ [writing_bytes (addr self) register None]) (reading (addr self) byteCt)
          = Inl (IOError m2) \<longrightarrow>
        readReg dev self register byteCt bus =
          (Inl (IOError ''mcp9808 IO Error: Failed to read MCP9808 sensor on I2C bus.''),
           bus @ [writing_bytes (addr self) register None, reading (addr self) byteCt]))"
proof (intro conjI impI)
  let ?sel = "writing_bytes (addr self) register None"
  let ?rd = "reading (addr self) byteCt"
  show "(\<exists>m. fst (readReg dev self register byteCt bus) = Inl (IOError m)) \<longleftrightarrow>
      0 \<le> register \<and> register < 256
      \<and> ((\<exists>m. dev bus ?sel = Inl (IOError m))
         \<or> ((\<exists>x. dev bus ?sel = Inr x) \<and> 0 \<le> byteCt
            \<and> (\<exists>m. dev (bus @ [?sel]) ?rd = Inl (IOError m))))"
  proof (cases "0 \<le> register \<and> register < 256")
    case False
    then have "byte_error register = Some (ValueError ''bytes must be in range(0, 256)'')"
      by (auto simp add: byte_error_def)
    then have "fst (readReg dev self register byteCt bus) =
        Inl (ValueError ''bytes must be in range(0, 256)'')"
      by (simp add: readReg_def send_msg_def reraise_def)
    with False show ?thesis
      by auto
  next
    case reg: True
    show ?thesis
    proof (cases "dev bus ?sel")
      case (Inl e)
      with reg show ?thesis
        by (simp add: readReg_def send_msg_def transaction_def byte_error_def
            reraise_IOError_iff)
    next
      case sel: (Inr x)
      show ?thesis
      proof (cases "0 \<le> byteCt")
        case False
        with reg sel have "fst (readReg dev self register byteCt bus) =
            Inl (ValueError ''Array length must be >= 0'')"
          by (simp add: readReg_def send_msg_def transaction_def byte_error_def reraise_def)
        with False reg sel show ?thesis
          by simp
      next
        case cnt: True
        show ?thesis
        proof (cases "dev (bus @ [?sel]) ?rd")
          case (Inl e)
          with reg sel cnt show ?thesis
            by (simp add: readReg_def send_msg_def transaction_def byte_error_def
                reraise_IOError_iff)
        next
          case (Inr data)
          with reg sel cnt show ?thesis
            by (simp add: readReg_def send_msg_def transaction_def byte_error_def
                split: list.split)
        qed
      qed
    qed
  qed
next
  assume "0 \<le> register \<and> register < 256
      \<and> dev bus (writing_bytes (addr self) register None) = Inl (IOError m1)"
  then show "readReg dev self register byteCt bus =
      (Inl (IOError ''mcp9808 IO Error: Failed to read MCP9808 sensor on I2C bus.''),
       bus @ [writing_bytes (addr self) register None])"
    by (simp add: readReg_def send_msg_def transaction_def byte_error_def reraise_def)
next
  assume "0 \<le> register \<and> register < 256 \<and> 0 \<le> byteCt
      \<and> dev bus (writing_bytes (addr self) register None) = Inr x
      \<and> dev (bus @ [writing_bytes (addr self) register None]) (reading (addr self) byteCt)
          = Inl (IOError m2)"
  then show "readReg dev self register byteCt bus =
      (Inl (IOError ''mcp9808 IO Error: Failed to read MCP9808 sensor on I2C bus.''),
       bus @ [writing_bytes (addr self) register None, reading (addr self) byteCt])"
    by (simp add: readReg_def send_msg_def transaction_def byte_error_def reraise_def)
qed

theorem readReg_IOError_iff_witness:
  "(0 :: int) \<le> 5 \<and> (5 :: int) < 256 \<and> (0 :: int) \<le> 2
   \<and> dead_device ([] :: unit bus) (writing_bytes (addr (init 0x18)) 5 None)
     = Inl (IOError ''Input/output error'')
   \<and> readReg dead_device (init 0x18) 5 2 ([] :: unit bus) =
       (Inl (IOError ''mcp9808 IO Error: Failed to read MCP9808 sensor on I2C bus.''),
        [writing_bytes 0x18 5 None])
   \<and> mute_device ([] :: unit bus) (writing_bytes (addr (init 0x18)) 5 None) = Inr []
   \<and> mute_device ([writing_bytes (addr (init 0x18)) 5 None] :: unit bus)
        (reading (addr (init 0x18)) 2) = Inl (IOError ''Input/output error'')
   \<and> readReg mute_device (init 0x18) 5 2 ([] :: unit bus) =
       (Inl (IOError ''mcp9808 IO Error: Failed to read MCP9808 sensor on I2C bus.''),
        [writing_bytes 0x18 5 None, reading 0x18 2])
   \<and> \<not> (\<exists>m. fst (readReg (fixed_device [0x01, 0x94]) (init 0x18) 5 2 ([] :: unit bus))
              = Inl (IOError m))"
proof -
  have d: "dead_device ([] :: unit bus) (writing_bytes (addr (init 0x18)) 5 None)
      = Inl (IOError ''Input/output error'')"
    by (simp add: dead_device_def)
  have m: "mute_device ([] :: unit bus) (writing_bytes (addr (init 0x18)) 5 None) = Inr []
      \<and> mute_device (([] :: unit bus) @ [writing_bytes (addr (init 0x18)) 5 None])
          (reading (addr (init 0x18)) 2) = Inl (IOError ''Input/output error'')"
    by (simp add: mute_device_def)
  have f: "\<not> (\<exists>m. fixed_device [0x01, 0x94] ([] :: unit bus)
                (writing_bytes (addr (init 0x18)) 5 None) = Inl (IOError m))
      \<and> \<not> (\<exists>m. fixed_device [0x01, 0x94]
                (([] :: unit bus) @ [writing_bytes (addr (init 0x18)) 5 None])
                (reading (addr (init 0x18)) 2) = Inl (IOError m))"
    by (simp add: fixed_device_def)
  show ?thesis
    using d m f
      readReg_IOError_iff [of "dead_device :: unit device" "init 0x18" 5 2 "[]"
        "''Input/output error''" "[]" "''Input/output error''"]
      readReg_IOError_iff [of "mute_device :: unit device" "init 0x18" 5 2 "[]"
        "''Input/output error''" "[]" "''Input/output error''"]
      readReg_IOError_iff [of "fixed_device [0x01, 0x94] :: unit device" "init 0x18" 5 2 "[]"
        "''Input/output error''" "[]" "''Input/output error''"]
    by (simp add: init_fields)
qed

end
